theory Spec2Isabelle
  imports Complex_Main "HOL-Library.Word"
begin

unbundle bit_operations_syntax

section \<open>Numeric conventions\<close>

text \<open>
  The C++ sources compute with \<open>float\<close> and \<open>double\<close>. Both are embedded as \<^typ>\<open>real\<close>:
  comparisons, \<open>max\<close>, \<open>min\<close> and the control flow they drive are modelled exactly, rounding
  and the special values (NaN, infinities) are not. A C++ \<open>int\<close> is an \<^typ>\<open>int\<close>; no
  modelled operation does arithmetic on one that could leave the 32-bit range.
\<close>

definition jlimit :: "'a::linorder \<Rightarrow> 'a \<Rightarrow> 'a \<Rightarrow> 'a" where
  \<comment> \<open>\<open>juce::jlimit (lower, upper, value)\<close>\<close>
  "jlimit lowerLimit upperLimit valueToConstrain =
     (if valueToConstrain < lowerLimit then lowerLimit
      else if upperLimit < valueToConstrain then upperLimit
      else valueToConstrain)"

section \<open>Transport state machine (TransportState.h, TransportState.cpp)\<close>

datatype State = Stopped | Playing | Recording | Paused

record TimeSignature =
  numerator :: int
  denominator :: int

text \<open>
  The four callbacks of \<open>TransportState::Listener\<close>, with the arguments each
  \<open>notify...\<close> function passes to \<open>listeners.call\<close>.
\<close>

datatype notification =
    transportStateChanged State
  | tempoChanged real
  | positionChanged real
  | loopChanged bool real real

text \<open>
  The atomics and the lock-guarded time signature are plain fields: the embedding is
  sequential. Every \<open>notify...\<close> function does two things, \<open>sendChangeMessage()\<close> of the
  \<open>juce::ChangeBroadcaster\<close> base and one \<open>listeners.call\<close>; the first is counted in
  \<open>changeMessages\<close>, the second is appended to \<open>notifications\<close> (oldest first).
\<close>

record TransportState =
  state :: State
  samplePosition :: real
  tempo :: real
  sampleRate :: real
  timeSignature :: TimeSignature
  loopEnabled :: bool
  loopStartSamples :: real
  loopEndSamples :: real
  changeMessages :: nat
  notifications :: "notification list"

definition initialTransportState :: TransportState where
  \<comment> \<open>the member initialisers of TransportState.h and the constructor\<close>
  "initialTransportState =
     \<lparr> state = Stopped, samplePosition = 0, tempo = 120, sampleRate = 44100,
       timeSignature = \<lparr> numerator = 4, denominator = 4 \<rparr>,
       loopEnabled = False, loopStartSamples = 0, loopEndSamples = 0,
       changeMessages = 0, notifications = [] \<rparr>"

definition sendChangeMessage :: "TransportState \<Rightarrow> TransportState" where
  "sendChangeMessage s = s\<lparr> changeMessages := Suc (changeMessages s) \<rparr>"

definition listenersCall :: "notification \<Rightarrow> TransportState \<Rightarrow> TransportState" where
  "listenersCall n s = s\<lparr> notifications := notifications s @ [n] \<rparr>"

definition notifyStateChanged :: "TransportState \<Rightarrow> TransportState" where
  "notifyStateChanged s = listenersCall (transportStateChanged (state s)) (sendChangeMessage s)"

definition notifyTempoChanged :: "TransportState \<Rightarrow> TransportState" where
  "notifyTempoChanged s = listenersCall (tempoChanged (tempo s)) (sendChangeMessage s)"

definition notifyPositionChanged :: "TransportState \<Rightarrow> TransportState" where
  "notifyPositionChanged s = listenersCall (positionChanged (samplePosition s)) (sendChangeMessage s)"

definition notifyLoopChanged :: "TransportState \<Rightarrow> TransportState" where
  "notifyLoopChanged s =
     listenersCall (loopChanged (loopEnabled s) (loopStartSamples s) (loopEndSamples s))
       (sendChangeMessage s)"

subsection \<open>Playback control\<close>

definition play :: "TransportState \<Rightarrow> TransportState" where
  "play s = (let prev = state s; s1 = s\<lparr> state := Playing \<rparr>
             in if prev \<noteq> Playing then notifyStateChanged s1 else s1)"

definition pause :: "TransportState \<Rightarrow> TransportState" where
  "pause s = (let prev = state s; s1 = s\<lparr> state := Paused \<rparr>
              in if prev \<noteq> Paused then notifyStateChanged s1 else s1)"

definition stop :: "TransportState \<Rightarrow> TransportState" where
  "stop s = notifyPositionChanged (notifyStateChanged (s\<lparr> state := Stopped, samplePosition := 0 \<rparr>))"

definition startRecording :: "TransportState \<Rightarrow> TransportState" where
  "startRecording s = (let prev = state s; s1 = s\<lparr> state := Recording \<rparr>
                       in if prev \<noteq> Recording then notifyStateChanged s1 else s1)"

definition stopRecording :: "TransportState \<Rightarrow> TransportState" where
  "stopRecording s =
     (if state s = Recording then notifyStateChanged (s\<lparr> state := Playing \<rparr>) else s)"

definition isPlaying :: "TransportState \<Rightarrow> bool" where
  "isPlaying s \<longleftrightarrow> state s = Playing \<or> state s = Recording"

subsection \<open>Position, tempo, time signature, loop\<close>

definition setSamplePosition :: "real \<Rightarrow> TransportState \<Rightarrow> TransportState" where
  "setSamplePosition position s = notifyPositionChanged (s\<lparr> samplePosition := max 0 position \<rparr>)"

definition setTempo :: "real \<Rightarrow> TransportState \<Rightarrow> TransportState" where
  "setTempo bpm s = notifyTempoChanged (s\<lparr> tempo := jlimit 20 999 bpm \<rparr>)"

definition setTimeSignature :: "int \<Rightarrow> int \<Rightarrow> TransportState \<Rightarrow> TransportState" where
  "setTimeSignature num den s =
     s\<lparr> timeSignature := \<lparr> numerator = jlimit 1 32 num, denominator = jlimit 1 32 den \<rparr> \<rparr>"

definition setSampleRate :: "real \<Rightarrow> TransportState \<Rightarrow> TransportState" where
  "setSampleRate rate s = s\<lparr> sampleRate := rate \<rparr>"

definition setLooping :: "bool \<Rightarrow> TransportState \<Rightarrow> TransportState" where
  "setLooping enabled s = notifyLoopChanged (s\<lparr> loopEnabled := enabled \<rparr>)"

definition setLoopRange :: "real \<Rightarrow> real \<Rightarrow> TransportState \<Rightarrow> TransportState" where
  "setLoopRange startSamples endSamples s =
     notifyLoopChanged
       (s\<lparr> loopStartSamples := max 0 startSamples,
           loopEndSamples := max startSamples endSamples \<rparr>)"

subsection \<open>Audio processing\<close>

definition advancePosition :: "int \<Rightarrow> TransportState \<Rightarrow> TransportState" where
  "advancePosition numSamples s =
     (if isPlaying s then s\<lparr> samplePosition := samplePosition s + real_of_int numSamples \<rparr>
      else s)"

definition shouldLoop :: "TransportState \<Rightarrow> bool" where
  "shouldLoop s = (if \<not> loopEnabled s then False
                   else (let pos = samplePosition s; end' = loopEndSamples s in pos \<ge> end'))"

definition performLoopIfNeeded :: "TransportState \<Rightarrow> bool \<times> TransportState" where
  \<comment> \<open>the returned flag first, the state after the call second\<close>
  "performLoopIfNeeded s =
     (if shouldLoop s then (True, s\<lparr> samplePosition := loopStartSamples s \<rparr>)
      else (False, s))"

section \<open>JUCE value types used by the tracks\<close>

text \<open>
  \<open>juce::AudioBuffer<float>\<close>: a list of channels, each a list of samples. JUCE gives
  every channel the same number of samples; the functions below do not rely on it.
\<close>

type_synonym AudioBuffer = "real list list"

definition getNumChannels :: "AudioBuffer \<Rightarrow> nat" where
  "getNumChannels buffer = length buffer"

definition clear :: "AudioBuffer \<Rightarrow> AudioBuffer" where
  \<comment> \<open>\<open>buffer.clear()\<close>: every sample becomes zero, the dimensions stay\<close>
  "clear buffer = map (map (\<lambda>_. 0)) buffer"

definition applyGainChannel :: "nat \<Rightarrow> real \<Rightarrow> AudioBuffer \<Rightarrow> AudioBuffer" where
  \<comment> \<open>\<open>buffer.applyGain (ch, 0, buffer.getNumSamples(), gain)\<close>, called with \<open>ch\<close> in range\<close>
  "applyGainChannel ch gain buffer =
     (if ch < length buffer then buffer[ch := map (\<lambda>x. x * gain) (buffer ! ch)] else buffer)"

definition applyGain :: "real \<Rightarrow> AudioBuffer \<Rightarrow> AudioBuffer" where
  \<comment> \<open>\<open>buffer.applyGain (gain)\<close>: all channels\<close>
  "applyGain gain buffer = map (map (\<lambda>x. x * gain)) buffer"

definition getMagnitude :: "nat \<Rightarrow> AudioBuffer \<Rightarrow> real" where
  \<comment> \<open>\<open>buffer.getMagnitude (ch, 0, buffer.getNumSamples())\<close>: the largest absolute sample
      of the channel, zero for a channel without samples\<close>
  "getMagnitude ch buffer =
     (if ch < length buffer then fold (\<lambda>x m. max m \<bar>x\<bar>) (buffer ! ch) 0 else 0)"

text \<open>
  \<open>juce::MidiMessage\<close>: its raw data holds at least one byte; the first is \<open>status\<close>, the
  others are \<open>dataBytes\<close>. \<open>getChannel\<close> and \<open>isForChannel\<close> are JUCE's: a message whose
  status has the high nibble \<open>0xf\<close> (system messages) has no channel, any other carries
  its channel, counted from zero, in the low nibble.
\<close>

record MidiMessage =
  status :: "8 word"
  dataBytes :: "8 word list"
  timeStamp :: real

definition getChannel :: "MidiMessage \<Rightarrow> int" where
  "getChannel msg =
     (if (status msg AND 0xf0) \<noteq> 0xf0 then uint (status msg AND 0xf) + 1 else 0)"

definition isForChannel :: "MidiMessage \<Rightarrow> int \<Rightarrow> bool" where
  "isForChannel msg channel \<longleftrightarrow>
     uint (status msg AND 0xf) = channel - 1 \<and> (status msg AND 0xf0) \<noteq> 0xf0"

text \<open>
  \<open>juce::MidiBuffer\<close>: the events with their sample positions, kept in the order of the
  positions. \<open>addEvent\<close> puts the new event before the first one with a greater position.
\<close>

type_synonym MidiBuffer = "(MidiMessage \<times> int) list"

fun addEvent :: "MidiMessage \<Rightarrow> int \<Rightarrow> MidiBuffer \<Rightarrow> MidiBuffer" where
  "addEvent msg pos [] = [(msg, pos)]"
| "addEvent msg pos ((m, p) # es) =
     (if p > pos then (msg, pos) # (m, p) # es else (m, p) # addEvent msg pos es)"

definition truncToInt :: "real \<Rightarrow> int" where
  \<comment> \<open>\<open>static_cast<int>\<close> and \<open>static_cast<juce::int64>\<close> of a double: towards zero\<close>
  "truncToInt x = (if x \<ge> 0 then \<lfloor>x\<rfloor> else \<lceil>x\<rceil>)"

text \<open>
  \<open>juce::Colour\<close> and \<open>juce::Uuid\<close> are stored in the property representation through
  \<open>toString()\<close> and read back by \<open>Colour::fromString\<close> and the \<open>Uuid (String)\<close> constructor.
  JUCE reads back what it printed; a colour and a uuid are represented here by that text,
  so both conversions are the identity.
\<close>

type_synonym Colour = string
type_synonym Uuid = string

text \<open>
  \<open>juce::var\<close> with a \<open>juce::DynamicObject\<close> as its object case: the properties in
  insertion order. \<open>setProperty\<close> replaces the value of a name that is present and appends
  otherwise; \<open>getProperty\<close> yields the void var for a missing name. The conversion
  operators are given for the values the serialisers store; JUCE also parses numbers out
  of strings, which reads as zero here.
\<close>

datatype var =
    VVoid
  | VInt int
  | VBool bool
  | VDouble real
  | VString string
  | VArray "var list"
  | VObject "(string \<times> var) list"

type_synonym DynamicObject = "(string \<times> var) list"

fun setProperty :: "string \<Rightarrow> var \<Rightarrow> DynamicObject \<Rightarrow> DynamicObject" where
  "setProperty k v [] = [(k, v)]"
| "setProperty k v ((k', v') # ps) =
     (if k' = k then (k, v) # ps else (k', v') # setProperty k v ps)"

fun getProperty :: "string \<Rightarrow> DynamicObject \<Rightarrow> var" where
  "getProperty k [] = VVoid"
| "getProperty k ((k', v') # ps) = (if k' = k then v' else getProperty k ps)"

fun getDynamicObject :: "var \<Rightarrow> DynamicObject option" where
  "getDynamicObject (VObject ps) = Some ps"
| "getDynamicObject _ = None"

fun getArray :: "var \<Rightarrow> var list option" where
  "getArray (VArray xs) = Some xs"
| "getArray _ = None"

fun toString :: "var \<Rightarrow> string" where
  "toString (VString s) = s"
| "toString _ = []"

fun toBool :: "var \<Rightarrow> bool" where
  "toBool (VBool b) = b"
| "toBool (VInt i) = (i \<noteq> 0)"
| "toBool (VDouble d) = (d \<noteq> 0)"
| "toBool _ = False"

fun toDouble :: "var \<Rightarrow> real" where
  "toDouble (VDouble d) = d"
| "toDouble (VInt i) = real_of_int i"
| "toDouble (VBool b) = (if b then 1 else 0)"
| "toDouble _ = 0"

fun toInt :: "var \<Rightarrow> int" where
  "toInt (VInt i) = i"
| "toInt (VBool b) = (if b then 1 else 0)"
| "toInt (VDouble d) = truncToInt d"
| "toInt _ = 0"

section \<open>Clips (Clip.h, Clip.cpp)\<close>

text \<open>
  The subclass part of a clip. An \<open>AudioClip\<close> holds its file and, once the file was
  read, a reader source: JUCE's reader is a parameter here, a function from the read
  position and the buffer to the filled buffer. A \<open>MidiClip\<close> holds its sequence of
  timestamped messages.
\<close>

datatype ClipSub =
    BaseClip
  | AudioClip string "(int \<Rightarrow> AudioBuffer \<Rightarrow> AudioBuffer) option"
  | MidiClip "MidiMessage list"

record Clip =
  clipName :: string
  clipColour :: Colour
  startPosition :: real
  clipLength :: real
  offset :: real
  clipSub :: ClipSub

definition newClip :: Clip where
  \<comment> \<open>\<open>Clip::Clip()\<close> with the member initialisers of Clip.h\<close>
  "newClip = \<lparr> clipName = ''Clip'', clipColour = ''ff00d4ff'', startPosition = 0,
               clipLength = 0, offset = 0, clipSub = BaseClip \<rparr>"

definition getEndPosition :: "Clip \<Rightarrow> real" where
  "getEndPosition c = startPosition c + clipLength c"

definition containsPosition :: "Clip \<Rightarrow> real \<Rightarrow> bool" where
  "containsPosition c position \<longleftrightarrow> position \<ge> startPosition c \<and> position < getEndPosition c"

definition getAudio :: "Clip \<Rightarrow> AudioBuffer \<Rightarrow> real \<Rightarrow> real \<Rightarrow> AudioBuffer" where
  \<comment> \<open>virtual: \<open>Clip::getAudio\<close> does nothing, \<open>AudioClip::getAudio\<close> reads the source\<close>
  "getAudio c buffer playPosition sampleRate' =
     (case clipSub c of
        AudioClip file readerSource \<Rightarrow>
          (case readerSource of
             None \<Rightarrow> buffer
           | Some reader \<Rightarrow>
               if \<not> containsPosition c playPosition then buffer
               else (let positionInClip = playPosition - startPosition c + offset c
                     in reader (truncToInt positionInClip) buffer))
      | _ \<Rightarrow> buffer)"

definition getMidi :: "Clip \<Rightarrow> MidiBuffer \<Rightarrow> real \<Rightarrow> int \<Rightarrow> real \<Rightarrow> MidiBuffer" where
  \<comment> \<open>virtual: \<open>Clip::getMidi\<close> does nothing, \<open>MidiClip::getMidi\<close> selects the events of the window\<close>
  "getMidi c buffer playPosition numSamples sampleRate' =
     (case clipSub c of
        MidiClip midiData \<Rightarrow>
          if \<not> containsPosition c playPosition then buffer
          else (let startTimeInClip = playPosition - startPosition c + offset c;
                    endTimeInClip = startTimeInClip + (real_of_int numSamples / sampleRate' * 1000);
                    startSec = startTimeInClip / sampleRate';
                    endSec = endTimeInClip / sampleRate'
                in fold (\<lambda>event buf.
                           (let eventTime = timeStamp event
                            in if eventTime \<ge> startSec \<and> eventTime < endSec
                               then addEvent event (truncToInt ((eventTime - startSec) * sampleRate')) buf
                               else buf))
                        midiData buffer)
      | _ \<Rightarrow> buffer)"

definition Clip_toVar :: "Clip \<Rightarrow> var" where
  "Clip_toVar c =
     VObject (fold (\<lambda>(k, v). setProperty k v)
       [(''name'', VString (clipName c)),
        (''colour'', VString (clipColour c)),
        (''startPosition'', VDouble (startPosition c)),
        (''length'', VDouble (clipLength c)),
        (''offset'', VDouble (offset c))] [])"

definition clipToVar :: "(8 word list \<Rightarrow> string) \<Rightarrow> Clip \<Rightarrow> var" where
  \<comment> \<open>the virtual \<open>toVar\<close>: \<open>AudioClip::toVar\<close> and \<open>MidiClip::toVar\<close> extend the object of
      \<open>Clip::toVar\<close>. \<open>toBase64Encoding\<close> is \<open>juce::MemoryBlock\<close>'s, a parameter.\<close>
  "clipToVar toBase64Encoding c =
     (let base = Clip_toVar c
      in case clipSub c of
           BaseClip \<Rightarrow> base
         | AudioClip file readerSource \<Rightarrow>
             (case getDynamicObject base of
                Some obj \<Rightarrow>
                  VObject (setProperty ''audioFile'' (VString file)
                            (setProperty ''type'' (VString ''audio'') obj))
              | None \<Rightarrow> base)
         | MidiClip midiData \<Rightarrow>
             (case getDynamicObject base of
                Some obj \<Rightarrow>
                  (let events = map (\<lambda>event.
                         VObject (setProperty ''data''
                                    (VString (toBase64Encoding (status event # dataBytes event)))
                                    (setProperty ''time'' (VDouble (timeStamp event)) [])))
                       midiData
                   in VObject (setProperty ''midiEvents'' (VArray events)
                                (setProperty ''type'' (VString ''midi'') obj)))
              | None \<Rightarrow> base))"

definition Clip_fromVar :: "var \<Rightarrow> Clip \<Rightarrow> Clip" where
  "Clip_fromVar data c =
     (case getDynamicObject data of
        Some obj \<Rightarrow>
          c\<lparr> clipName := toString (getProperty ''name'' obj),
             clipColour := toString (getProperty ''colour'' obj),
             startPosition := toDouble (getProperty ''startPosition'' obj),
             clipLength := toDouble (getProperty ''length'' obj),
             offset := toDouble (getProperty ''offset'' obj) \<rparr>
      | None \<Rightarrow> c)"

section \<open>Plugin slots (PluginSlot.h, PluginSlot.cpp)\<close>

text \<open>
  The loaded \<open>juce::AudioPluginInstance\<close> is a parameter: what its \<open>processBlock\<close> makes of
  the two buffers of one block.
\<close>

record PluginSlot =
  plugin :: "(AudioBuffer \<times> MidiBuffer \<Rightarrow> AudioBuffer \<times> MidiBuffer) option"
  enabled :: bool

definition newPluginSlot :: PluginSlot where
  "newPluginSlot = \<lparr> plugin = None, enabled = True \<rparr>"

definition PluginSlot_processBlock :: "PluginSlot \<Rightarrow> AudioBuffer \<times> MidiBuffer \<Rightarrow> AudioBuffer \<times> MidiBuffer" where
  "PluginSlot_processBlock slot bufs =
     (case plugin slot of
        Some p \<Rightarrow> if enabled slot then p bufs else bufs
      | None \<Rightarrow> bufs)"

section \<open>Tracks (Track.h, Track.cpp)\<close>

datatype TrackType = Audio | Midi | Group | Master

datatype InputType = InputNone | Mono | Stereo | InputOther int

text \<open>
  The members the four subclasses add to \<open>Track\<close>: input type, input channels and monitor
  flag of an \<open>AudioTrack\<close>, the channel of a \<open>MidiTrack\<close> (0 = all, 1 to 16 = specific), the
  child identities of a \<open>GroupTrack\<close>. The \<open>type\<close> member of \<open>Track\<close> is fixed by the
  subclass constructor and is read off this part.
\<close>

datatype TrackSub =
    AudioTrack InputType int int bool
  | MidiTrack int
  | GroupTrack "Uuid list"
  | MasterTrack

text \<open>
  \<open>trackId\<close> is the member \<open>id\<close>. The two atomics of \<open>peakLevels\<close> are a pair.
  \<open>sendChangeMessage()\<close> of the setters is not part of this record.
\<close>

record Track =
  name :: string
  colour :: Colour
  trackId :: Uuid
  index :: int
  solo :: bool
  muted :: bool
  armed :: bool
  volume :: real
  pan :: real
  outputBus :: Uuid
  pluginSlots :: "PluginSlot list"
  clips :: "Clip list"
  peakLevels :: "real \<times> real"
  currentSampleRate :: real
  currentBlockSize :: int
  sub :: TrackSub

definition getType :: "Track \<Rightarrow> TrackType" where
  "getType t = (case sub t of AudioTrack _ _ _ _ \<Rightarrow> Audio | MidiTrack _ \<Rightarrow> Midi
                | GroupTrack _ \<Rightarrow> Group | MasterTrack \<Rightarrow> Master)"

definition newTrack :: "TrackSub \<Rightarrow> string \<Rightarrow> Uuid \<Rightarrow> Uuid \<Rightarrow> Track" where
  \<comment> \<open>\<open>Track::Track (type, name)\<close>: \<open>id (juce::Uuid())\<close> and the default-constructed
      \<open>outputBus\<close> are two random uuids, given here as \<open>freshId\<close> and \<open>freshBus\<close>\<close>
  "newTrack s n freshId freshBus =
     \<lparr> name = n, colour = ''ff00d4ff'', trackId = freshId, index = 0,
       solo = False, muted = False, armed = False, volume = 1, pan = 0,
       outputBus = freshBus, pluginSlots = [], clips = [], peakLevels = (0, 0),
       currentSampleRate = 44100, currentBlockSize = 512, sub = s \<rparr>"

definition newAudioTrack :: "string \<Rightarrow> Uuid \<Rightarrow> Uuid \<Rightarrow> Track" where
  "newAudioTrack = newTrack (AudioTrack Stereo 0 1 False)"

definition newMidiTrack :: "string \<Rightarrow> Uuid \<Rightarrow> Uuid \<Rightarrow> Track" where
  "newMidiTrack = newTrack (MidiTrack 0)"

definition newGroupTrack :: "string \<Rightarrow> Uuid \<Rightarrow> Uuid \<Rightarrow> Track" where
  "newGroupTrack = newTrack (GroupTrack [])"

definition newMasterTrack :: "Uuid \<Rightarrow> Uuid \<Rightarrow> Track" where
  "newMasterTrack = newTrack MasterTrack ''Master''"

subsection \<open>Setters and the clip and plugin lists\<close>

definition setName :: "string \<Rightarrow> Track \<Rightarrow> Track" where
  "setName newName t = t\<lparr> name := newName \<rparr>"

definition setColour :: "Colour \<Rightarrow> Track \<Rightarrow> Track" where
  "setColour c t = t\<lparr> colour := c \<rparr>"

definition setIndex :: "int \<Rightarrow> Track \<Rightarrow> Track" where
  "setIndex i t = t\<lparr> index := i \<rparr>"

definition setSolo :: "bool \<Rightarrow> Track \<Rightarrow> Track" where
  "setSolo s t = t\<lparr> solo := s \<rparr>"

definition setMuted :: "bool \<Rightarrow> Track \<Rightarrow> Track" where
  "setMuted m t = t\<lparr> muted := m \<rparr>"

definition setArmed :: "bool \<Rightarrow> Track \<Rightarrow> Track" where
  "setArmed a t = t\<lparr> armed := a \<rparr>"

definition setVolume :: "real \<Rightarrow> Track \<Rightarrow> Track" where
  "setVolume v t = t\<lparr> volume := jlimit 0 2 v \<rparr>"

definition setPan :: "real \<Rightarrow> Track \<Rightarrow> Track" where
  "setPan p t = t\<lparr> pan := jlimit (- 1) 1 p \<rparr>"

definition setOutputBus :: "Uuid \<Rightarrow> Track \<Rightarrow> Track" where
  "setOutputBus busId t = t\<lparr> outputBus := busId \<rparr>"

definition addPluginSlot :: "Track \<Rightarrow> Track" where
  "addPluginSlot t = t\<lparr> pluginSlots := pluginSlots t @ [newPluginSlot] \<rparr>"

definition removePluginSlot :: "int \<Rightarrow> Track \<Rightarrow> Track" where
  "removePluginSlot i t =
     (if i \<ge> 0 \<and> i < int (length (pluginSlots t))
      then t\<lparr> pluginSlots := take (nat i) (pluginSlots t) @ drop (Suc (nat i)) (pluginSlots t) \<rparr>
      else t)"

definition addClip :: "Clip \<Rightarrow> Track \<Rightarrow> Track" where
  "addClip clip t = t\<lparr> clips := clips t @ [clip] \<rparr>"

definition removeClip :: "int \<Rightarrow> Track \<Rightarrow> Track" where
  "removeClip i t =
     (if i \<ge> 0 \<and> i < int (length (clips t))
      then t\<lparr> clips := take (nat i) (clips t) @ drop (Suc (nat i)) (clips t) \<rparr>
      else t)"

definition getClipAtPosition :: "real \<Rightarrow> Track \<Rightarrow> Clip option" where
  \<comment> \<open>the first clip, in list order, that contains the position; \<open>nullptr\<close> is \<open>None\<close>\<close>
  "getClipAtPosition position t = find (\<lambda>clip. containsPosition clip position) (clips t)"

definition prepareToPlay :: "real \<Rightarrow> int \<Rightarrow> Track \<Rightarrow> Track" where
  \<comment> \<open>the same body in the four subclasses; the plugins' own \<open>prepareToPlay\<close> is JUCE's\<close>
  "prepareToPlay rate samplesPerBlock t =
     t\<lparr> currentSampleRate := rate, currentBlockSize := samplesPerBlock \<rparr>"

definition setMidiChannel :: "int \<Rightarrow> Track \<Rightarrow> Track" where
  \<comment> \<open>\<open>MidiTrack::setMidiChannel\<close>\<close>
  "setMidiChannel channel t =
     (case sub t of MidiTrack _ \<Rightarrow> t\<lparr> sub := MidiTrack (jlimit 0 16 channel) \<rparr> | _ \<Rightarrow> t)"

subsection \<open>Metering\<close>

definition peakLoad :: "nat \<Rightarrow> real \<times> real \<Rightarrow> real" where
  \<comment> \<open>\<open>peakLevels[ch].load()\<close> for \<open>ch\<close> 0 or 1\<close>
  "peakLoad ch p = (if ch = 0 then fst p else snd p)"

definition peakStore :: "nat \<Rightarrow> real \<Rightarrow> real \<times> real \<Rightarrow> real \<times> real" where
  \<comment> \<open>\<open>peakLevels[ch].store (v)\<close> for \<open>ch\<close> 0 or 1\<close>
  "peakStore ch v p = (if ch = 0 then (v, snd p) else (fst p, v))"

definition getPeakLevel :: "int \<Rightarrow> Track \<Rightarrow> real" where
  "getPeakLevel channel t =
     (if channel \<ge> 0 \<and> channel < 2 then peakLoad (nat channel) (peakLevels t) else 0)"

definition resetPeaks :: "Track \<Rightarrow> Track" where
  "resetPeaks t = t\<lparr> peakLevels := peakStore 1 0 (peakStore 0 0 (peakLevels t)) \<rparr>"

definition updatePeakChannel :: "AudioBuffer \<Rightarrow> nat \<Rightarrow> Track \<Rightarrow> Track" where
  \<comment> \<open>the body of the loop of \<open>Track::updatePeakLevels\<close>\<close>
  "updatePeakChannel buffer ch t =
     (let peak = getMagnitude ch buffer;
          current = peakLoad ch (peakLevels t)
      in if peak > current
         then t\<lparr> peakLevels := peakStore ch peak (peakLevels t) \<rparr>
         else t\<lparr> peakLevels := peakStore ch (current * 0.99) (peakLevels t) \<rparr>)"

definition updatePeakLevels :: "AudioBuffer \<Rightarrow> Track \<Rightarrow> Track" where
  "updatePeakLevels buffer t =
     fold (updatePeakChannel buffer) [0 ..< min (getNumChannels buffer) 2] t"

subsection \<open>Per-block processing\<close>

definition runPluginChain :: "PluginSlot list \<Rightarrow> AudioBuffer \<times> MidiBuffer \<Rightarrow> AudioBuffer \<times> MidiBuffer" where
  \<comment> \<open>\<open>for (auto& slot : pluginSlots) if (slot->isEnabled()) slot->processBlock (...)\<close>\<close>
  "runPluginChain slots bufs =
     fold (\<lambda>slot b. if enabled slot then PluginSlot_processBlock slot b else b) slots bufs"

definition applyVolumeAndPan :: "real \<Rightarrow> real \<Rightarrow> AudioBuffer \<Rightarrow> AudioBuffer" where
  \<comment> \<open>the gain loop of \<open>AudioTrack::processBlock\<close> and \<open>GroupTrack::processBlock\<close>\<close>
  "applyVolumeAndPan vol pn buffer =
     fold (\<lambda>ch b.
             (let gain = vol;
                  gain = (if ch = 0 then gain * (1 - max 0 pn) else gain);
                  gain = (if ch = 1 then gain * (1 + min 0 pn) else gain)
              in applyGainChannel ch gain b))
          [0 ..< getNumChannels buffer] buffer"

definition AudioTrack_processBlock ::
  "AudioBuffer \<Rightarrow> MidiBuffer \<Rightarrow> TransportState \<Rightarrow> Track \<Rightarrow> AudioBuffer \<times> MidiBuffer \<times> Track" where
  "AudioTrack_processBlock buffer midiMessages transport t =
     (if muted t \<and> \<not> solo t then (clear buffer, midiMessages, t)
      else
        (let position = samplePosition transport;
             buffer1 = (case getClipAtPosition position t of
                          Some clip \<Rightarrow> getAudio clip buffer position (currentSampleRate t)
                        | None \<Rightarrow> buffer);
             (buffer2, midi2) = runPluginChain (pluginSlots t) (buffer1, midiMessages);
             buffer3 = applyVolumeAndPan (volume t) (pan t) buffer2
         in (buffer3, midi2, updatePeakLevels buffer3 t)))"

definition filterMidiChannel :: "int \<Rightarrow> MidiBuffer \<Rightarrow> MidiBuffer" where
  \<comment> \<open>the block under \<open>if (midiChannel > 0)\<close> of \<open>MidiTrack::processBlock\<close>: the buffer
      \<open>filtered\<close> that is swapped in\<close>
  "filterMidiChannel midiChannel midiMessages =
     fold (\<lambda>(msg, pos) filtered.
             if getChannel msg = midiChannel \<or> \<not> isForChannel msg midiChannel
             then addEvent msg pos filtered else filtered)
          midiMessages []"

definition MidiTrack_processBlock ::
  "int \<Rightarrow> AudioBuffer \<Rightarrow> MidiBuffer \<Rightarrow> TransportState \<Rightarrow> Track \<Rightarrow> AudioBuffer \<times> MidiBuffer \<times> Track" where
  \<comment> \<open>the first argument is the member \<open>midiChannel\<close>\<close>
  "MidiTrack_processBlock midiChannel buffer midiMessages transport t =
     (if muted t \<and> \<not> solo t then (clear buffer, [], t)
      else
        (let position = samplePosition transport;
             midi1 = (case getClipAtPosition position t of
                        Some clip \<Rightarrow> getMidi clip midiMessages position (currentBlockSize t) (currentSampleRate t)
                      | None \<Rightarrow> midiMessages);
             midi2 = (if midiChannel > 0 then filterMidiChannel midiChannel midi1 else midi1);
             (buffer3, midi3) = runPluginChain (pluginSlots t) (buffer, midi2);
             buffer4 = applyGain (volume t) buffer3
         in (buffer4, midi3, updatePeakLevels buffer4 t)))"

definition GroupTrack_processBlock ::
  "AudioBuffer \<Rightarrow> MidiBuffer \<Rightarrow> TransportState \<Rightarrow> Track \<Rightarrow> AudioBuffer \<times> MidiBuffer \<times> Track" where
  "GroupTrack_processBlock buffer midiMessages transport t =
     (if muted t \<and> \<not> solo t then (clear buffer, midiMessages, t)
      else
        (let (buffer2, midi2) = runPluginChain (pluginSlots t) (buffer, midiMessages);
             buffer3 = applyVolumeAndPan (volume t) (pan t) buffer2
         in (buffer3, midi2, updatePeakLevels buffer3 t)))"

definition MasterTrack_processBlock ::
  "AudioBuffer \<Rightarrow> MidiBuffer \<Rightarrow> TransportState \<Rightarrow> Track \<Rightarrow> AudioBuffer \<times> MidiBuffer \<times> Track" where
  "MasterTrack_processBlock buffer midiMessages transport t =
     (let (buffer2, midi2) = runPluginChain (pluginSlots t) (buffer, midiMessages);
          buffer3 = applyGain (volume t) buffer2
      in (buffer3, midi2, updatePeakLevels buffer3 t))"

definition processBlock ::
  "AudioBuffer \<Rightarrow> MidiBuffer \<Rightarrow> TransportState \<Rightarrow> Track \<Rightarrow> AudioBuffer \<times> MidiBuffer \<times> Track" where
  \<comment> \<open>the virtual call\<close>
  "processBlock buffer midiMessages transport t =
     (case sub t of
        AudioTrack _ _ _ _ \<Rightarrow> AudioTrack_processBlock buffer midiMessages transport t
      | MidiTrack midiChannel \<Rightarrow> MidiTrack_processBlock midiChannel buffer midiMessages transport t
      | GroupTrack _ \<Rightarrow> GroupTrack_processBlock buffer midiMessages transport t
      | MasterTrack \<Rightarrow> MasterTrack_processBlock buffer midiMessages transport t)"

subsection \<open>Serialisation\<close>

definition trackTypeToInt :: "TrackType \<Rightarrow> int" where
  "trackTypeToInt ty = (case ty of Audio \<Rightarrow> 0 | Midi \<Rightarrow> 1 | Group \<Rightarrow> 2 | Master \<Rightarrow> 3)"

definition inputTypeToInt :: "InputType \<Rightarrow> int" where
  "inputTypeToInt ty = (case ty of InputNone \<Rightarrow> 0 | Mono \<Rightarrow> 1 | Stereo \<Rightarrow> 2 | InputOther i \<Rightarrow> i)"

definition inputTypeFromInt :: "int \<Rightarrow> InputType" where
  "inputTypeFromInt i = (if i = 0 then InputNone else if i = 1 then Mono
                         else if i = 2 then Stereo else InputOther i)"

definition Track_toVar :: "(8 word list \<Rightarrow> string) \<Rightarrow> Track \<Rightarrow> var" where
  \<comment> \<open>\<open>Track::toVar\<close>; each clip through its virtual \<open>toVar\<close>\<close>
  "Track_toVar toBase64Encoding t =
     VObject (fold (\<lambda>(k, v). setProperty k v)
       [(''type'', VInt (trackTypeToInt (getType t))),
        (''name'', VString (name t)),
        (''colour'', VString (colour t)),
        (''id'', VString (trackId t)),
        (''solo'', VBool (solo t)),
        (''muted'', VBool (muted t)),
        (''armed'', VBool (armed t)),
        (''volume'', VDouble (volume t)),
        (''pan'', VDouble (pan t)),
        (''outputBus'', VString (outputBus t)),
        (''clips'', VArray (map (clipToVar toBase64Encoding) (clips t)))] [])"

definition Track_fromVar :: "var \<Rightarrow> Track \<Rightarrow> Track" where
  \<comment> \<open>\<open>Track::fromVar\<close>; every clip is rebuilt as a plain \<open>Clip\<close>\<close>
  "Track_fromVar data t =
     (case getDynamicObject data of
        Some obj \<Rightarrow>
          t\<lparr> name := toString (getProperty ''name'' obj),
             colour := toString (getProperty ''colour'' obj),
             trackId := toString (getProperty ''id'' obj),
             solo := toBool (getProperty ''solo'' obj),
             muted := toBool (getProperty ''muted'' obj),
             armed := toBool (getProperty ''armed'' obj),
             volume := toDouble (getProperty ''volume'' obj),
             pan := toDouble (getProperty ''pan'' obj),
             outputBus := toString (getProperty ''outputBus'' obj),
             clips := (case getArray (getProperty ''clips'' obj) of
                         Some clipArray \<Rightarrow> map (\<lambda>clipVar. Clip_fromVar clipVar newClip) clipArray
                       | None \<Rightarrow> []) \<rparr>
      | None \<Rightarrow> t)"

definition toVar :: "(8 word list \<Rightarrow> string) \<Rightarrow> Track \<Rightarrow> var" where
  \<comment> \<open>the virtual \<open>toVar\<close> of the four subclasses\<close>
  "toVar toBase64Encoding t =
     (let base = Track_toVar toBase64Encoding t
      in case sub t of
           AudioTrack inputType inputChannelLeft inputChannelRight monitorInput \<Rightarrow>
             (case getDynamicObject base of
                Some obj \<Rightarrow>
                  VObject (fold (\<lambda>(k, v). setProperty k v)
                    [(''inputType'', VInt (inputTypeToInt inputType)),
                     (''inputChannelLeft'', VInt inputChannelLeft),
                     (''inputChannelRight'', VInt inputChannelRight),
                     (''monitorInput'', VBool monitorInput)] obj)
              | None \<Rightarrow> base)
         | MidiTrack midiChannel \<Rightarrow>
             (case getDynamicObject base of
                Some obj \<Rightarrow> VObject (setProperty ''midiChannel'' (VInt midiChannel) obj)
              | None \<Rightarrow> base)
         | GroupTrack childTrackIds \<Rightarrow>
             (case getDynamicObject base of
                Some obj \<Rightarrow> VObject (setProperty ''childTracks'' (VArray (map VString childTrackIds)) obj)
              | None \<Rightarrow> base)
         | MasterTrack \<Rightarrow> base)"

definition fromVar :: "var \<Rightarrow> Track \<Rightarrow> Track" where
  \<comment> \<open>the virtual \<open>fromVar\<close> of the four subclasses, on the instance \<open>t\<close>\<close>
  "fromVar data t =
     (let t1 = Track_fromVar data t
      in case sub t of
           AudioTrack _ _ _ _ \<Rightarrow>
             (case getDynamicObject data of
                Some obj \<Rightarrow>
                  t1\<lparr> sub := AudioTrack (inputTypeFromInt (toInt (getProperty ''inputType'' obj)))
                                        (toInt (getProperty ''inputChannelLeft'' obj))
                                        (toInt (getProperty ''inputChannelRight'' obj))
                                        (toBool (getProperty ''monitorInput'' obj)) \<rparr>
              | None \<Rightarrow> t1)
         | MidiTrack _ \<Rightarrow>
             (case getDynamicObject data of
                Some obj \<Rightarrow> t1\<lparr> sub := MidiTrack (toInt (getProperty ''midiChannel'' obj)) \<rparr>
              | None \<Rightarrow> t1)
         | GroupTrack _ \<Rightarrow>
             (case getDynamicObject data of
                Some obj \<Rightarrow>
                  t1\<lparr> sub := GroupTrack (case getArray (getProperty ''childTracks'' obj) of
                                          Some arr \<Rightarrow> map toString arr
                                        | None \<Rightarrow> []) \<rparr>
              | None \<Rightarrow> t1)
         | MasterTrack \<Rightarrow> t1)"

section \<open>Track collection (TrackList.h, TrackList.cpp)\<close>

text \<open>
  The listener calls and \<open>sendChangeMessage()\<close> of the collection are not part of this
  record.
\<close>

record TrackList =
  tracks :: "Track list"
  masterTrack :: Track
  selectedTrackIndex :: int
  nextTrackNumber :: int

definition getTrack :: "int \<Rightarrow> TrackList \<Rightarrow> Track option" where
  "getTrack i tlist =
     (if i \<ge> 0 \<and> i < int (length (tracks tlist)) then Some (tracks tlist ! nat i) else None)"

definition getTrackById :: "Uuid \<Rightarrow> TrackList \<Rightarrow> Track option" where
  "getTrackById ident tlist = find (\<lambda>track. trackId track = ident) (tracks tlist)"

definition updateTrackIndices :: "TrackList \<Rightarrow> TrackList" where
  "updateTrackIndices tlist =
     tlist\<lparr> tracks := map (\<lambda>(i, track). setIndex (int i) track) (enumerate 0 (tracks tlist)) \<rparr>"

definition hasAnySolo :: "TrackList \<Rightarrow> bool" where
  "hasAnySolo tlist = list_ex solo (tracks tlist)"

definition isTrackAudible :: "int \<Rightarrow> TrackList \<Rightarrow> bool" where
  "isTrackAudible i tlist =
     (if i < 0 \<or> i \<ge> int (length (tracks tlist)) then False
      else (let track = tracks tlist ! nat i
            in if muted track then False
               else if hasAnySolo tlist then solo track
               else True))"

definition duplicateTrack :: "(8 word list \<Rightarrow> string) \<Rightarrow> Uuid \<Rightarrow> Uuid \<Rightarrow> int \<Rightarrow> TrackList \<Rightarrow> TrackList" where
  \<comment> \<open>\<open>freshId\<close> and \<open>freshBus\<close> are the random uuids the constructor of the new track draws\<close>
  "duplicateTrack toBase64Encoding freshId freshBus i tlist =
     (if i \<ge> 0 \<and> i < int (length (tracks tlist)) then
        (let original = tracks tlist ! nat i;
             data = toVar toBase64Encoding original;
             made = (case getType original of
                       Audio \<Rightarrow> Some (newAudioTrack (name original @ '' Copy'') freshId freshBus)
                     | Midi \<Rightarrow> Some (newMidiTrack (name original @ '' Copy'') freshId freshBus)
                     | Group \<Rightarrow> Some (newGroupTrack (name original @ '' Copy'') freshId freshBus)
                     | _ \<Rightarrow> None)
         in case made of
              None \<Rightarrow> tlist
            | Some newTrack0 \<Rightarrow>
                (let newTrack1 = fromVar data newTrack0;
                     newTrack2 = setName (name original @ '' Copy'') newTrack1;
                     newIndex = i + 1;
                     newTrack3 = setIndex newIndex newTrack2
                 in updateTrackIndices
                      (tlist\<lparr> tracks := take (nat newIndex) (tracks tlist) @ [newTrack3]
                                       @ drop (nat newIndex) (tracks tlist) \<rparr>)))
      else tlist)"

section \<open>Tempo estimator (TempoEstimator.cpp)\<close>

text \<open>
  The header with \<open>Config\<close> is not among the sources; its members are the ones
  TempoEstimator.cpp reads. \<open>sampleRateC\<close> is the member \<open>sampleRate\<close>, and the members
  of the estimator are named without their trailing underscore. \<open>onsetHistory_.reserve\<close>
  changes the capacity of the vector only, which is no part of its value.
\<close>

record Config =
  sampleRateC :: real
  minTempo :: real
  maxTempo :: real
  adaptationRate :: real
  historySize :: nat

record TempoEstimator =
  config :: Config
  onsetHistory :: "64 word list"
  currentTempo :: real
  confidence :: real
  lastOnsetPosition :: "64 word"

definition newTempoEstimator :: "Config \<Rightarrow> TempoEstimator" where
  "newTempoEstimator c =
     \<lparr> config = c, onsetHistory = [], currentTempo = 120, confidence = 0, lastOnsetPosition = 0 \<rparr>"

definition autocorrelate :: "real list \<Rightarrow> real" where
  "autocorrelate intervals =
     (if intervals = [] then 0
      else (let sortedIntervals = sort intervals;
                medianIdx = length sortedIntervals div 2
            in if length sortedIntervals mod 2 = 0 \<and> length sortedIntervals > 1
               then (sortedIntervals ! (medianIdx - 1) + sortedIntervals ! medianIdx) / 2
               else sortedIntervals ! medianIdx))"

definition estimateTempo :: "TempoEstimator \<Rightarrow> TempoEstimator" where
  "estimateTempo e =
     (if length (onsetHistory e) < 4 then e
      else
        (let intervals = map (\<lambda>i.
                (let ioi = onsetHistory e ! i - onsetHistory e ! (i - 1)
                 in real (unat ioi) / sampleRateC (config e)))
              [1 ..< length (onsetHistory e)];
             bestInterval = autocorrelate intervals
         in if bestInterval > 0 then
              (let estimatedTempo = 60 / bestInterval;
                   estimatedTempo = max (minTempo (config e)) (min (maxTempo (config e)) estimatedTempo);
                   newTempo = currentTempo e * (1 - adaptationRate (config e))
                              + estimatedTempo * adaptationRate (config e);
                   mean = bestInterval;
                   variance = fold (\<lambda>interval v. v + (interval - mean) * (interval - mean)) intervals 0;
                   variance = variance / real (length intervals);
                   conf = 1 / (1 + variance * 10)
               in e\<lparr> currentTempo := newTempo, confidence := min 1 conf \<rparr>)
            else e))"

definition addOnset :: "64 word \<Rightarrow> TempoEstimator \<Rightarrow> TempoEstimator" where
  "addOnset samplePos e =
     (let h1 = onsetHistory e @ [samplePos];
          h2 = (if length h1 > historySize (config e) then tl h1 else h1);
          e1 = e\<lparr> onsetHistory := h2, lastOnsetPosition := samplePos \<rparr>
      in if length h2 \<ge> 4 then estimateTempo e1 else e1)"

definition updateConfig :: "Config \<Rightarrow> TempoEstimator \<Rightarrow> TempoEstimator" where
  "updateConfig c e = e\<lparr> config := c \<rparr>"

definition reset :: "TempoEstimator \<Rightarrow> TempoEstimator" where
  "reset e = e\<lparr> onsetHistory := [], currentTempo := 120, confidence := 0, lastOnsetPosition := 0 \<rparr>"

section \<open>Vocabulary of the properties and example inputs\<close>

text \<open>
  The typed notifications a call raised: what it appended to the log. A call changed the
  transport state when a member other than the two logs differs afterwards.
\<close>

definition raised :: "TransportState \<Rightarrow> TransportState \<Rightarrow> notification list" where
  "raised s s' = drop (length (notifications s)) (notifications s')"

definition stateChanged :: "TransportState \<Rightarrow> TransportState \<Rightarrow> bool" where
  "stateChanged s s' \<longleftrightarrow>
     s'\<lparr> changeMessages := changeMessages s, notifications := notifications s \<rparr> \<noteq> s"

definition playingAt100 :: TransportState where
  "playingAt100 = initialTransportState\<lparr> state := Playing, samplePosition := 100 \<rparr>"

definition loopingPast :: TransportState where
  "loopingPast = initialTransportState\<lparr> state := Playing, samplePosition := 250,
      loopEnabled := True, loopStartSamples := 100, loopEndSamples := 200 \<rparr>"


text \<open>
  The rendering sequence of \<open>AudioTrack::processBlock\<close> past its gate: the clip at the
  transport position, the plugin chain, gain and pan, the meter.
\<close>

definition fullRendering ::
  "AudioBuffer \<Rightarrow> MidiBuffer \<Rightarrow> TransportState \<Rightarrow> Track \<Rightarrow> AudioBuffer \<times> MidiBuffer \<times> Track" where
  "fullRendering buffer midiMessages transport t =
     (let rendered = (case getClipAtPosition (samplePosition transport) t of
                        Some clip \<Rightarrow>
                          getAudio clip buffer (samplePosition transport) (currentSampleRate t)
                      | None \<Rightarrow> buffer);
          chained = runPluginChain (pluginSlots t) (rendered, midiMessages);
          gained = applyVolumeAndPan (volume t) (pan t) (fst chained)
      in (gained, snd chained, updatePeakLevels gained t))"

definition plainTrack :: Track where
  "plainTrack = newAudioTrack ''Audio 1'' ''id-1'' ''bus-1''"

definition soloTrack :: Track where
  "soloTrack = setSolo True (newAudioTrack ''Audio 2'' ''id-2'' ''bus-2'')"

definition mutedSoloTrack :: Track where
  \<comment> \<open>muted and soloed at once\<close>
  "mutedSoloTrack = setSolo True (setMuted True (newAudioTrack ''Audio 3'' ''id-4'' ''bus-4''))"

definition mutedTrack :: Track where
  "mutedTrack = setMuted True (newAudioTrack ''Audio 4'' ''id-5'' ''bus-5'')"

definition mutedSoloList :: TrackList where
  "mutedSoloList = \<lparr> tracks = [mutedSoloTrack, mutedTrack],
                     masterTrack = newMasterTrack ''id-m'' ''bus-m'',
                     selectedTrackIndex = - 1, nextTrackNumber = 5 \<rparr>"

definition twoTracks :: TrackList where
  \<comment> \<open>an unmuted, unsoloed track next to a soloed one\<close>
  "twoTracks = \<lparr> tracks = [plainTrack, soloTrack], masterTrack = newMasterTrack ''id-m'' ''bus-m'',
                 selectedTrackIndex = - 1, nextTrackNumber = 3 \<rparr>"

definition oneTrack :: TrackList where
  "oneTrack = \<lparr> tracks = [plainTrack], masterTrack = newMasterTrack ''id-m'' ''bus-m'',
                selectedTrackIndex = - 1, nextTrackNumber = 2 \<rparr>"

definition noteOnChannel2 :: MidiMessage where
  \<comment> \<open>note-on, middle C, velocity 100, on MIDI channel 2 (status \<open>0x91\<close>)\<close>
  "noteOnChannel2 = \<lparr> status = 0x91, dataBytes = [60, 100], timeStamp = 0 \<rparr>"

definition midiTrackChannel1 :: Track where
  "midiTrackChannel1 = setMidiChannel 1 (newMidiTrack ''MIDI 1'' ''id-3'' ''bus-3'')"

definition sampleEncoding :: "8 word list \<Rightarrow> string" where
  \<comment> \<open>a stand-in for \<open>toBase64Encoding\<close> in the examples, none of which holds MIDI data\<close>
  "sampleEncoding bytes = map (\<lambda>b. CHR ''b'') bytes"

definition exampleConfig :: "nat \<Rightarrow> Config" where
  "exampleConfig n = \<lparr> sampleRateC = 44100, minTempo = 60, maxTempo = 200,
                        adaptationRate = 1/10, historySize = n \<rparr>"

definition fourOnsets :: TempoEstimator where
  \<comment> \<open>four onsets half a second apart, under a history size of 4\<close>
  "fourOnsets = addOnset 66150 (addOnset 44100 (addOnset 22050 (addOnset 0
                  (newTempoEstimator (exampleConfig 4)))))"

section \<open>Transport: properties\<close>

lemmas notify_defs = notifyStateChanged_def notifyTempoChanged_def notifyPositionChanged_def
  notifyLoopChanged_def listenersCall_def sendChangeMessage_def

text \<open>
  C2, as the code has it. \<open>play\<close>, \<open>pause\<close>, \<open>startRecording\<close> and \<open>stopRecording\<close> raise exactly
  one state-changed notification when they change the mode, and none when they do not;
  \<open>setTempo\<close>, \<open>setSamplePosition\<close>, \<open>setLooping\<close> and \<open>setLoopRange\<close> raise exactly one
  notification of their kind on every call; \<open>stop\<close> raises two on every call, state-changed
  and then position-changed; \<open>setTimeSignature\<close> raises none.
\<close>

theorem transport_notifications:
  "raised s (play s) = (if state s = Playing then [] else [transportStateChanged Playing]) \<and>
   stateChanged s (play s) = (state s \<noteq> Playing) \<and>
   raised s (pause s) = (if state s = Paused then [] else [transportStateChanged Paused]) \<and>
   stateChanged s (pause s) = (state s \<noteq> Paused) \<and>
   raised s (startRecording s) =
     (if state s = Recording then [] else [transportStateChanged Recording]) \<and>
   stateChanged s (startRecording s) = (state s \<noteq> Recording) \<and>
   raised s (stopRecording s) =
     (if state s = Recording then [transportStateChanged Playing] else []) \<and>
   stateChanged s (stopRecording s) = (state s = Recording) \<and>
   raised s (stop s) = [transportStateChanged Stopped, positionChanged 0] \<and>
   raised s (setTempo bpm s) = [tempoChanged (jlimit 20 999 bpm)] \<and>
   raised s (setSamplePosition p s) = [positionChanged (max 0 p)] \<and>
   raised s (setLooping b s) = [loopChanged b (loopStartSamples s) (loopEndSamples s)] \<and>
   raised s (setLoopRange a e s) = [loopChanged (loopEnabled s) (max 0 a) (max a e)] \<and>
   raised s (setTimeSignature num den s) = []"
proof -
  have eqI: "\<And>r::TransportState. (r\<lparr> state := state r \<rparr>) = r" by simp
  have neq: "\<And>(r::TransportState) x. (r\<lparr> state := x \<rparr> = r) = (x = state r)"
    by (metis TransportState.select_convs(1) TransportState.surjective TransportState.update_convs(1))
  show ?thesis
    by (simp add: raised_def stateChanged_def play_def pause_def startRecording_def
        stopRecording_def stop_def setTempo_def setSamplePosition_def setLooping_def
        setLoopRange_def setTimeSignature_def notify_defs Let_def neq eq_commute [of _ "state s"])
qed

text \<open>
  C2 as stated fails: from playing at sample 100, \<open>stop\<close> changes the state and raises two
  notifications; \<open>setTimeSignature 3 4\<close> changes the initial state and raises none.
\<close>

theorem transport_notifications_counterexample:
  "stateChanged playingAt100 (stop playingAt100) \<and>
   length (raised playingAt100 (stop playingAt100)) = 2 \<and>
   stateChanged initialTransportState (setTimeSignature 3 4 initialTransportState) \<and>
   length (raised initialTransportState (setTimeSignature 3 4 initialTransportState)) = 0"
  by (simp add: stateChanged_def raised_def stop_def setTimeSignature_def notify_defs
      playingAt100_def initialTransportState_def jlimit_def)

text \<open>
  C5: with looping enabled and the position at or past the loop end, \<open>performLoopIfNeeded\<close>
  returns true and sets the position to the loop start; a second call right after leaves
  the state, the position with it, as it is.
\<close>

theorem performLoopIfNeeded_jumps_once:
  assumes "loopEnabled s" and "samplePosition s \<ge> loopEndSamples s"
  shows "fst (performLoopIfNeeded s) = True \<and>
         samplePosition (snd (performLoopIfNeeded s)) = loopStartSamples s \<and>
         snd (performLoopIfNeeded (snd (performLoopIfNeeded s))) = snd (performLoopIfNeeded s)"
  using assms by (simp add: performLoopIfNeeded_def shouldLoop_def)

theorem performLoopIfNeeded_jumps_once_witness:
  "loopEnabled loopingPast \<and> samplePosition loopingPast \<ge> loopEndSamples loopingPast \<and>
   fst (performLoopIfNeeded loopingPast) = True \<and>
   samplePosition (snd (performLoopIfNeeded loopingPast)) = 100 \<and>
   samplePosition (snd (performLoopIfNeeded (snd (performLoopIfNeeded loopingPast)))) = 100"
proof -
  have h1: "loopEnabled loopingPast" by (simp add: loopingPast_def)
  have h2: "samplePosition loopingPast \<ge> loopEndSamples loopingPast" by (simp add: loopingPast_def)
  from performLoopIfNeeded_jumps_once [OF h1 h2] h1 h2 show ?thesis
    by (simp add: loopingPast_def)
qed

text \<open>
  C6 at the input \<open>setLoopRange (-5) (-3)\<close>: the stored start is clamped to 0, the stored end
  is \<open>max (-5) (-3) = -3\<close>, taken against the start as passed and not as stored, so the end
  lies before the start.
\<close>

theorem setLoopRange_negative_start:
  "loopStartSamples (setLoopRange (- 5) (- 3) initialTransportState) = 0 \<and>
   loopEndSamples (setLoopRange (- 5) (- 3) initialTransportState) = - 3 \<and>
   \<not> loopEndSamples (setLoopRange (- 5) (- 3) initialTransportState)
       \<ge> loopStartSamples (setLoopRange (- 5) (- 3) initialTransportState)"
  by (simp add: setLoopRange_def notify_defs initialTransportState_def)

text \<open>What \<open>setLoopRange\<close> does keep: the start is never negative, and the end is not
  before the start whenever the start passed in is not negative.\<close>

lemma setLoopRange_start_nonneg: "loopStartSamples (setLoopRange a b s) \<ge> 0"
  by (simp add: setLoopRange_def notify_defs)

lemma setLoopRange_ordered:
  "a \<ge> 0 \<Longrightarrow> loopEndSamples (setLoopRange a b s) \<ge> loopStartSamples (setLoopRange a b s)"
  by (simp add: setLoopRange_def notify_defs)

text \<open>
  C10: \<open>advancePosition\<close> leaves a stopped or paused transport as it is; while playing or
  recording it adds the block size to the sample position and changes nothing else.
\<close>

theorem advancePosition_gated:
  "(state s = Stopped \<or> state s = Paused \<longrightarrow> advancePosition n s = s) \<and>
   (state s = Playing \<or> state s = Recording \<longrightarrow>
      advancePosition n s = s\<lparr> samplePosition := samplePosition s + real_of_int n \<rparr>)"
  by (cases "state s") (simp_all add: advancePosition_def isPlaying_def)

theorem advancePosition_gated_witness:
  "advancePosition 512 initialTransportState = initialTransportState \<and>
   samplePosition (advancePosition 512 playingAt100) = 612 \<and>
   samplePosition (advancePosition 512 (pause playingAt100)) = 100"
  using advancePosition_gated [of initialTransportState 512]
    advancePosition_gated [of playingAt100 512]
    advancePosition_gated [of "pause playingAt100" 512]
  by (simp add: initialTransportState_def playingAt100_def pause_def notify_defs)

section \<open>Metering: properties\<close>



lemma upt_0_2: "[0 ..< 2] = [0, Suc 0]"
  by (simp add: upt_rec)






section \<open>Audio track processing: properties\<close>

lemma AudioTrack_processBlock_eq:
  "AudioTrack_processBlock b m tr t =
     (if muted t \<and> \<not> solo t then (clear b, m, t) else fullRendering b m tr t)"
  by (simp add: AudioTrack_processBlock_def fullRendering_def Let_def split_beta)

text \<open>
  C1, as the code has it. \<open>AudioTrack::processBlock\<close> clears the buffer and does nothing
  else (no clip, no plugin, no gain or pan, no meter update) exactly when the track's own
  mute flag is set and its own solo flag is not; in every other case it performs the full
  rendering sequence. So a track it clears is inaudible under the collection rule, a track
  that is audible under the collection rule is rendered, and so are an unmuted track that
  is inaudible because another track is soloed and a track that is muted and soloed.
\<close>

theorem AudioTrack_processBlock_gate:
  "AudioTrack_processBlock b m tr t =
     (if muted t \<and> \<not> solo t then (clear b, m, t) else fullRendering b m tr t) \<and>
   (getTrack i tlist = Some t \<and> muted t \<and> \<not> solo t \<longrightarrow> \<not> isTrackAudible i tlist) \<and>
   (getTrack i tlist = Some t \<and> isTrackAudible i tlist \<longrightarrow>
      AudioTrack_processBlock b m tr t = fullRendering b m tr t) \<and>
   (getTrack i tlist = Some t \<and> \<not> muted t \<and> \<not> isTrackAudible i tlist \<longrightarrow>
      AudioTrack_processBlock b m tr t = fullRendering b m tr t) \<and>
   (getTrack i tlist = Some t \<and> muted t \<and> solo t \<longrightarrow>
      \<not> isTrackAudible i tlist \<and> AudioTrack_processBlock b m tr t = fullRendering b m tr t)"
proof -
  have eq: "AudioTrack_processBlock b m tr t =
     (if muted t \<and> \<not> solo t then (clear b, m, t) else fullRendering b m tr t)"
    by (simp add: AudioTrack_processBlock_def fullRendering_def Let_def split_beta)
  have mute: "getTrack i tlist = Some t \<Longrightarrow> muted t \<Longrightarrow> \<not> isTrackAudible i tlist"
    by (auto simp: getTrack_def isTrackAudible_def Let_def split: if_splits)
  show ?thesis using eq mute by auto
qed

lemma tracks_simps:
  "muted plainTrack = False" "solo plainTrack = False"
  "muted soloTrack = False" "solo soloTrack = True"
  "clips plainTrack = []" "pluginSlots plainTrack = []"
  "volume plainTrack = 1" "pan plainTrack = 0" "peakLevels plainTrack = (0, 0)"
  by (simp_all add: plainTrack_def soloTrack_def newAudioTrack_def newTrack_def setSolo_def)

lemma muted_tracks_simps:
  "muted mutedSoloTrack = True" "solo mutedSoloTrack = True"
  "muted mutedTrack = True" "solo mutedTrack = False"
  "clips mutedSoloTrack = []" "pluginSlots mutedSoloTrack = []"
  "volume mutedSoloTrack = 1" "pan mutedSoloTrack = 0" "peakLevels mutedSoloTrack = (0, 0)"
  by (simp_all add: mutedSoloTrack_def mutedTrack_def newAudioTrack_def newTrack_def
      setSolo_def setMuted_def)

lemma applyVolumeAndPan_unit: "applyVolumeAndPan 1 0 [[1], [1]] = [[1], [1]]"
  by (simp add: applyVolumeAndPan_def getNumChannels_def upt_0_2 applyGainChannel_def Let_def)

lemma fullRendering_unit:
  assumes "clips t = []" "pluginSlots t = []" "volume t = 1" "pan t = 0"
    "peakLevels t = (0, 0)"
  shows "fullRendering [[1], [1]] [] tr t = ([[1], [1]], [], t\<lparr> peakLevels := (1, 1) \<rparr>)"
  using assms
  by (simp add: fullRendering_def getClipAtPosition_def runPluginChain_def
      applyVolumeAndPan_unit updatePeakLevels_def getNumChannels_def upt_0_2
      updatePeakChannel_def getMagnitude_def peakLoad_def peakStore_def Let_def)

lemma fullRendering_plainTrack:
  "fullRendering [[1], [1]] [] initialTransportState plainTrack
     = ([[1], [1]], [], plainTrack\<lparr> peakLevels := (1, 1) \<rparr>)"
  by (rule fullRendering_unit) (simp_all add: tracks_simps)

lemma fullRendering_mutedSoloTrack:
  "fullRendering [[1], [1]] [] initialTransportState mutedSoloTrack
     = ([[1], [1]], [], mutedSoloTrack\<lparr> peakLevels := (1, 1) \<rparr>)"
  by (rule fullRendering_unit) (simp_all add: muted_tracks_simps)

text \<open>
  The four cases at concrete tracks, each on the block \<open>[[1], [1]]\<close>: muted and not soloed
  (cleared, meter untouched); muted and soloed (inaudible in its collection, rendered,
  meter at 1); unmuted next to a soloed track (inaudible, rendered); soloed and unmuted
  (audible, rendered).
\<close>

theorem AudioTrack_processBlock_gate_witness:
  "AudioTrack_processBlock [[1], [1]] [] initialTransportState mutedTrack
     = ([[0], [0]], [], mutedTrack) \<and>
   \<not> isTrackAudible 1 mutedSoloList \<and>
   \<not> isTrackAudible 0 mutedSoloList \<and>
   AudioTrack_processBlock [[1], [1]] [] initialTransportState mutedSoloTrack
     = ([[1], [1]], [], mutedSoloTrack\<lparr> peakLevels := (1, 1) \<rparr>) \<and>
   \<not> isTrackAudible 0 twoTracks \<and>
   AudioTrack_processBlock [[1], [1]] [] initialTransportState plainTrack
     = ([[1], [1]], [], plainTrack\<lparr> peakLevels := (1, 1) \<rparr>) \<and>
   isTrackAudible 1 twoTracks \<and>
   AudioTrack_processBlock [[1], [1]] [] initialTransportState soloTrack
     = fullRendering [[1], [1]] [] initialTransportState soloTrack"
proof -
  have g0: "getTrack 0 mutedSoloList = Some mutedSoloTrack"
    and g1: "getTrack 1 mutedSoloList = Some mutedTrack"
    by (simp_all add: getTrack_def mutedSoloList_def)
  have h0: "getTrack 0 twoTracks = Some plainTrack"
    and h1: "getTrack 1 twoTracks = Some soloTrack"
    by (simp_all add: getTrack_def twoTracks_def)
  have a0: "\<not> isTrackAudible 0 twoTracks" and a1: "isTrackAudible 1 twoTracks"
    by (simp_all add: isTrackAudible_def twoTracks_def hasAnySolo_def tracks_simps)
  from AudioTrack_processBlock_gate
      [of "[[1], [1]]" "[]" initialTransportState mutedTrack 1 mutedSoloList]
    AudioTrack_processBlock_gate
      [of "[[1], [1]]" "[]" initialTransportState mutedSoloTrack 0 mutedSoloList]
    AudioTrack_processBlock_gate
      [of "[[1], [1]]" "[]" initialTransportState plainTrack 0 twoTracks]
    AudioTrack_processBlock_gate
      [of "[[1], [1]]" "[]" initialTransportState soloTrack 1 twoTracks]
    g0 g1 h0 h1 a0 a1
  show ?thesis
    by (simp add: clear_def tracks_simps muted_tracks_simps fullRendering_plainTrack
        fullRendering_mutedSoloTrack)
qed

text \<open>
  C1 as stated fails: in a collection where another track is soloed, an unmuted, unsoloed
  audio track is inaudible, and \<open>processBlock\<close> still renders it; the gate reads the
  track's own flags only.
\<close>

theorem AudioTrack_processBlock_counterexample:
  "getTrack 0 twoTracks = Some plainTrack \<and> \<not> isTrackAudible 0 twoTracks \<and>
   AudioTrack_processBlock [[1], [1]] [] initialTransportState plainTrack
     = ([[1], [1]], [], plainTrack\<lparr> peakLevels := (1, 1) \<rparr>) \<and>
   fst (AudioTrack_processBlock [[1], [1]] [] initialTransportState plainTrack)
     \<noteq> clear [[1], [1]]"
  by (simp add: AudioTrack_processBlock_eq fullRendering_plainTrack tracks_simps
      getTrack_def isTrackAudible_def hasAnySolo_def twoTracks_def clear_def)

section \<open>MIDI channel filter: properties\<close>

text \<open>The test of the filter holds for every message and every channel, so the filter
  keeps every event.\<close>

lemma channel_test_always: "getChannel msg = c \<or> \<not> isForChannel msg c"
  by (auto simp: getChannel_def isForChannel_def)

lemma set_addEvent: "set (addEvent msg pos es) = insert (msg, pos) (set es)"
  by (induction msg pos es rule: addEvent.induct) auto

lemma length_addEvent: "length (addEvent msg pos es) = Suc (length es)"
  by (induction msg pos es rule: addEvent.induct) auto

lemma filter_fold_set:
  "set (fold (\<lambda>(msg, pos) filtered.
             if getChannel msg = c \<or> \<not> isForChannel msg c
             then addEvent msg pos filtered else filtered) ms acc) = set ms \<union> set acc"
  by (induction ms arbitrary: acc) (auto simp: channel_test_always set_addEvent)

lemma filter_fold_length:
  "length (fold (\<lambda>(msg, pos) filtered.
             if getChannel msg = c \<or> \<not> isForChannel msg c
             then addEvent msg pos filtered else filtered) ms acc) = length ms + length acc"
  by (induction ms arbitrary: acc) (auto simp: channel_test_always length_addEvent)

lemma filterMidiChannel_keeps_all:
  "set (filterMidiChannel c ms) = set ms" "length (filterMidiChannel c ms) = length ms"
  by (simp_all add: filterMidiChannel_def filter_fold_set filter_fold_length)

lemma noteOnChannel2_channel:
  "getChannel noteOnChannel2 = 2" "\<not> isForChannel noteOnChannel2 1"
  by (simp_all add: getChannel_def isForChannel_def noteOnChannel2_def)

text \<open>
  C4 at a MIDI track assigned channel 1 and a block holding one note-on for channel 2:
  the event is for another specific channel, and it is still in the MIDI buffer after
  \<open>processBlock\<close>.
\<close>

theorem MidiTrack_filter_keeps_other_channel:
  "sub midiTrackChannel1 = MidiTrack 1 \<and> getChannel noteOnChannel2 = 2 \<and>
   filterMidiChannel 1 [(noteOnChannel2, 0)] = [(noteOnChannel2, 0)] \<and>
   fst (snd (processBlock [[0], [0]] [(noteOnChannel2, 0)] initialTransportState
              midiTrackChannel1))
     = [(noteOnChannel2, 0)]"
  by (simp add: noteOnChannel2_channel filterMidiChannel_def processBlock_def
      MidiTrack_processBlock_def midiTrackChannel1_def setMidiChannel_def newMidiTrack_def
      newTrack_def jlimit_def getClipAtPosition_def runPluginChain_def Let_def)

section \<open>Serialisation and identity: properties\<close>

lemma Clip_fromVar_clipToVar:
  "Clip_fromVar (clipToVar enc c) newClip =
     newClip\<lparr> clipName := clipName c, clipColour := clipColour c,
              startPosition := startPosition c, clipLength := clipLength c, offset := offset c \<rparr>"
  by (cases "clipSub c") (simp_all add: Clip_fromVar_def clipToVar_def Clip_toVar_def Let_def)

lemma getDynamicObject_toVar:
  "\<exists>obj. getDynamicObject (toVar enc t) = Some obj \<and>
     getProperty ''name'' obj = VString (name t) \<and>
     getProperty ''colour'' obj = VString (colour t) \<and>
     getProperty ''id'' obj = VString (trackId t) \<and>
     getProperty ''solo'' obj = VBool (solo t) \<and>
     getProperty ''muted'' obj = VBool (muted t) \<and>
     getProperty ''armed'' obj = VBool (armed t) \<and>
     getProperty ''volume'' obj = VDouble (volume t) \<and>
     getProperty ''pan'' obj = VDouble (pan t) \<and>
     getProperty ''outputBus'' obj = VString (outputBus t) \<and>
     getProperty ''clips'' obj = VArray (map (clipToVar enc) (clips t))"
  by (cases "sub t") (simp_all add: toVar_def Track_toVar_def Let_def)

lemma Track_fromVar_toVar:
  "Track_fromVar (toVar enc t) t' =
     t'\<lparr> name := name t, colour := colour t, trackId := trackId t,
         solo := solo t, muted := muted t, armed := armed t,
         volume := volume t, pan := pan t, outputBus := outputBus t,
         clips := map (\<lambda>c. newClip\<lparr> clipName := clipName c, clipColour := clipColour c,
                                   startPosition := startPosition c,
                                   clipLength := clipLength c, offset := offset c \<rparr>)
                      (clips t) \<rparr>"
proof -
  from getDynamicObject_toVar [of enc t] obtain obj where
    "getDynamicObject (toVar enc t) = Some obj"
     "getProperty ''name'' obj = VString (name t)"
     "getProperty ''colour'' obj = VString (colour t)"
     "getProperty ''id'' obj = VString (trackId t)"
     "getProperty ''solo'' obj = VBool (solo t)"
     "getProperty ''muted'' obj = VBool (muted t)"
     "getProperty ''armed'' obj = VBool (armed t)"
     "getProperty ''volume'' obj = VDouble (volume t)"
     "getProperty ''pan'' obj = VDouble (pan t)"
     "getProperty ''outputBus'' obj = VString (outputBus t)"
     "getProperty ''clips'' obj = VArray (map (clipToVar enc) (clips t))"
    by blast
  then show ?thesis
    by (simp add: Track_fromVar_def comp_def Clip_fromVar_clipToVar)
qed

lemma fromVar_base_fields:
  "name (fromVar data t) = name (Track_fromVar data t)"
  "colour (fromVar data t) = colour (Track_fromVar data t)"
  "trackId (fromVar data t) = trackId (Track_fromVar data t)"
  "solo (fromVar data t) = solo (Track_fromVar data t)"
  "muted (fromVar data t) = muted (Track_fromVar data t)"
  "armed (fromVar data t) = armed (Track_fromVar data t)"
  "volume (fromVar data t) = volume (Track_fromVar data t)"
  "pan (fromVar data t) = pan (Track_fromVar data t)"
  "outputBus (fromVar data t) = outputBus (Track_fromVar data t)"
  "clips (fromVar data t) = clips (Track_fromVar data t)"
  by (simp_all add: fromVar_def Let_def split: TrackSub.splits option.splits)

text \<open>
  C8: re-hydrating any instance from the exported representation of a track reproduces
  the track's name, colour, volume, pan and its solo, mute and armed flags, and gives as
  many clips, with the same start positions, lengths and offsets in the same order.
\<close>

theorem toVar_fromVar_roundtrip:
  "name (fromVar (toVar enc t) t') = name t \<and>
   colour (fromVar (toVar enc t) t') = colour t \<and>
   volume (fromVar (toVar enc t) t') = volume t \<and>
   pan (fromVar (toVar enc t) t') = pan t \<and>
   solo (fromVar (toVar enc t) t') = solo t \<and>
   muted (fromVar (toVar enc t) t') = muted t \<and>
   armed (fromVar (toVar enc t) t') = armed t \<and>
   length (clips (fromVar (toVar enc t) t')) = length (clips t) \<and>
   map startPosition (clips (fromVar (toVar enc t) t')) = map startPosition (clips t) \<and>
   map clipLength (clips (fromVar (toVar enc t) t')) = map clipLength (clips t) \<and>
   map offset (clips (fromVar (toVar enc t) t')) = map offset (clips t)"
  by (simp add: fromVar_base_fields Track_fromVar_toVar comp_def)

lemma trackId_fold_updatePeakChannel:
  "trackId (fold (updatePeakChannel b) chs t) = trackId t"
  by (induction chs arbitrary: t) (simp_all add: updatePeakChannel_def Let_def)

lemma trackId_updatePeakLevels: "trackId (updatePeakLevels b t) = trackId t"
  by (simp add: updatePeakLevels_def trackId_fold_updatePeakChannel)

lemma trackId_processBlock: "trackId (snd (snd (processBlock b m tr t))) = trackId t"
  by (simp add: processBlock_def AudioTrack_processBlock_def MidiTrack_processBlock_def
      GroupTrack_processBlock_def MasterTrack_processBlock_def Let_def split_beta
      trackId_updatePeakLevels split: TrackSub.splits)

lemma trackId_updateTrackIndices:
  "map trackId (tracks (updateTrackIndices tlist)) = map trackId (tracks tlist)"
proof -
  have "map trackId (map (\<lambda>(i, track). setIndex (int i) track) (enumerate 0 (tracks tlist)))
          = map trackId (map snd (enumerate 0 (tracks tlist)))"
    unfolding map_map by (rule map_cong) (auto simp: setIndex_def)
  also have "\<dots> = map trackId (tracks tlist)" by simp
  finally show ?thesis by (simp add: updateTrackIndices_def)
qed

lemma trackId_fromVar:
  "trackId (fromVar data t) =
     (case getDynamicObject data of
        Some obj \<Rightarrow> toString (getProperty ''id'' obj) | None \<Rightarrow> trackId t)"
  by (simp add: fromVar_base_fields Track_fromVar_def split: option.splits)

text \<open>
  C7, as the code has it. The identity given at construction is changed by one operation
  only: \<open>fromVar\<close>, which replaces it by the identity stored in the property
  representation, so that an instance re-hydrated from an exported track carries that
  track's identity. Setters, clip and plugin-slot edits, preparing, processing, metering
  and the renumbering of indices leave it as it is.
\<close>

theorem identity_changed_by_fromVar_only:
  "trackId (setName n t) = trackId t \<and> trackId (setColour c t) = trackId t \<and>
   trackId (setIndex i t) = trackId t \<and> trackId (setSolo f t) = trackId t \<and>
   trackId (setMuted f t) = trackId t \<and> trackId (setArmed f t) = trackId t \<and>
   trackId (setVolume v t) = trackId t \<and> trackId (setPan v t) = trackId t \<and>
   trackId (setOutputBus u t) = trackId t \<and> trackId (setMidiChannel i t) = trackId t \<and>
   trackId (addPluginSlot t) = trackId t \<and> trackId (removePluginSlot i t) = trackId t \<and>
   trackId (addClip clip t) = trackId t \<and> trackId (removeClip i t) = trackId t \<and>
   trackId (prepareToPlay r i t) = trackId t \<and> trackId (resetPeaks t) = trackId t \<and>
   trackId (snd (snd (processBlock b m tr t))) = trackId t \<and>
   map trackId (tracks (updateTrackIndices tlist)) = map trackId (tracks tlist) \<and>
   trackId (fromVar data t) =
     (case getDynamicObject data of
        Some obj \<Rightarrow> toString (getProperty ''id'' obj) | None \<Rightarrow> trackId t) \<and>
   trackId (fromVar (toVar enc t0) t) = trackId t0"
  by (simp add: setName_def setColour_def setIndex_def setSolo_def setMuted_def setArmed_def
      setVolume_def setPan_def setOutputBus_def setMidiChannel_def addPluginSlot_def
      removePluginSlot_def addClip_def removeClip_def prepareToPlay_def resetPeaks_def
      trackId_processBlock trackId_updateTrackIndices trackId_fromVar [symmetric]
      fromVar_base_fields Track_fromVar_toVar split: TrackSub.splits)

lemma plainTrack_simps: "getType plainTrack = Audio" "name plainTrack = ''Audio 1''"
  "trackId plainTrack = ''id-1''"
  by (simp_all add: plainTrack_def newAudioTrack_def newTrack_def getType_def)

text \<open>
  C7 as stated fails: a track constructed with identity \<open>id-9\<close> has identity \<open>id-1\<close> after
  \<open>fromVar\<close> of the export of a track with that identity, and \<open>duplicateTrack\<close>, which
  goes through \<open>fromVar\<close>, leaves the original and its copy with the same identity.
\<close>

theorem identity_counterexample:
  "trackId (newAudioTrack ''Audio 1 Copy'' ''id-9'' ''bus-9'') = ''id-9'' \<and>
   trackId (fromVar (toVar sampleEncoding plainTrack)
             (newAudioTrack ''Audio 1 Copy'' ''id-9'' ''bus-9'')) = ''id-1'' \<and>
   map trackId (tracks (duplicateTrack sampleEncoding ''id-9'' ''bus-9'' 0 oneTrack))
     = [''id-1'', ''id-1'']"
  by (simp add: duplicateTrack_def oneTrack_def plainTrack_simps Let_def
      trackId_updateTrackIndices setIndex_def setName_def fromVar_base_fields Track_fromVar_toVar
      newAudioTrack_def newTrack_def)

section \<open>Tempo estimator: properties\<close>

text \<open>\<open>addOnset\<close> evicts at most one entry: a history within the bound stays within it, a
  longer one keeps its length.\<close>

lemma estimateTempo_frame:
  "onsetHistory (estimateTempo e) = onsetHistory e" "config (estimateTempo e) = config e"
  by (simp_all add: estimateTempo_def Let_def)

lemma onsetHistory_addOnset:
  "onsetHistory (addOnset x e) =
     (if length (onsetHistory e) + 1 > historySize (config e)
      then tl (onsetHistory e @ [x]) else onsetHistory e @ [x])"
  by (simp add: addOnset_def Let_def estimateTempo_frame)

lemma config_addOnset: "config (addOnset x e) = config e"
  by (simp add: addOnset_def Let_def estimateTempo_frame)

lemma length_addOnset:
  "length (onsetHistory (addOnset x e)) =
     (if length (onsetHistory e) < historySize (config e)
      then length (onsetHistory e) + 1 else length (onsetHistory e))"
  by (simp add: onsetHistory_addOnset)

lemma addOnset_keeps_cap:
  "length (onsetHistory e) \<le> historySize (config e) \<Longrightarrow>
   length (onsetHistory (addOnset x e)) \<le> historySize (config (addOnset x e))"
  by (simp add: length_addOnset config_addOnset)

lemma fourOnsets_history: "onsetHistory fourOnsets = [0, 22050, 44100, 66150]"
  by (simp add: fourOnsets_def onsetHistory_addOnset config_addOnset newTempoEstimator_def
      exampleConfig_def)

text \<open>
  C9 at an estimator holding four onsets under a history size of 4: after
  \<open>updateConfig\<close> with history size 2 the history still holds the four onsets, and after
  one more \<open>addOnset\<close> it holds four again, the oldest one gone.
\<close>

theorem updateConfig_keeps_long_history:
  "historySize (config (updateConfig (exampleConfig 2) fourOnsets)) = 2 \<and>
   onsetHistory (updateConfig (exampleConfig 2) fourOnsets) = [0, 22050, 44100, 66150] \<and>
   onsetHistory (addOnset 88200 (updateConfig (exampleConfig 2) fourOnsets))
     = [22050, 44100, 66150, 88200]"
  by (simp add: onsetHistory_addOnset updateConfig_def fourOnsets_history exampleConfig_def)

end
